theory Spec2Isabelle
  imports Complex_Main "HOL-Library.Char_ord" "HOL-Library.List_Lexorder"
begin

section \<open>Shared vocabulary of the two servers\<close>

text \<open>
  The repository holds two servers with the same tool catalogue. The hosted one
  (\<^verbatim>\<open>src/index.ts\<close>) forwards every tool to an HTTP API through
  \<^verbatim>\<open>AgentCortexAPIClient\<close>; the self-hosted one
  (\<^verbatim>\<open>test-mcp.js\<close>, built from \<^verbatim>\<open>index-self-hosted\<close>) talks to a Supabase store and to an
  embedding service. Both keep one piece of mutable state, \<^verbatim>\<open>currentProjectId\<close>.
  What the outside world answers (an HTTP response, a row set, a store error) is an
  input of the model; what the handler does with the answer is the modelled code.
\<close>

text \<open>JavaScript truthiness of a string: only the empty string is falsy.\<close>

definition truthy :: "string \<Rightarrow> bool" where
  "truthy s \<longleftrightarrow> s \<noteq> []"

text \<open>The test \<^verbatim>\<open>if (currentProjectId)\<close> on a \<^verbatim>\<open>string | null\<close>.\<close>

definition held :: "string option \<Rightarrow> string option" where
  "held c = (case c of None \<Rightarrow> None | Some s \<Rightarrow> if truthy s then Some s else None)"

text \<open>JSON values, as far as the handlers build them. \<open>JInstant\<close> is a time stamp of
  the store, which serialises it as the text of that instant.\<close>

datatype json =
    JNull
  | JUndefined
  | JString string
  | JNumber real
  | JInstant nat
  | JArray "json list"
  | JObject "(string \<times> json) list"

definition nl :: string where
  "nl = [CHR 0x0A]"

definition dq :: string where
  "dq = [CHR 0x22]"

definition opt_string :: "string option \<Rightarrow> json" where
  "opt_string v = (case v of None \<Rightarrow> JUndefined | Some s \<Rightarrow> JString s)"

text \<open>
  The text of a response envelope \<^verbatim>\<open>{ content: [{ type: 'text', text }] }\<close>:
  either a template string or \<^verbatim>\<open>JSON.stringify(v, null, 2)\<close> of a value.
  A handler either returns an envelope or lets an exception leave it; the dispatcher
  refuses a call whose arguments violate the schema before the handler runs.
\<close>

text \<open>
  Inside a template a \<open>Val\<close> stands for the text JavaScript renders the value as
  (a number, \<^verbatim>\<open>toFixed\<close>, \<^verbatim>\<open>toLocaleDateString\<close>); a \<open>Lit\<close> is literal text.
\<close>

datatype piece = Lit string | Val json

datatype content = Text string | Serialized json | Template "piece list"

datatype outcome =
    Envelope content
  | Escaped string
  | ValidationError

text \<open>
  Requests that leave the process. Those a handler waits for are logged in \<open>calls\<close> in
  the order they are issued; the usage reports, which nobody waits for, are logged in
  \<open>detached\<close> as (endpoint, method).
\<close>

datatype call =
    Http string string json
  | Embedding string
  | Select string
  | Insert string "json list"
  | Rpc string json

record session =
  currentProjectId :: "string option"
  calls :: "call list"
  detached :: "(string \<times> string) list"

definition issue :: "call \<Rightarrow> session \<Rightarrow> session" where
  "issue c s = s\<lparr>calls := calls s @ [c]\<rparr>"

section \<open>The hosted server: \<^verbatim>\<open>AgentCortexAPIClient\<close>\<close>

text \<open>Decimal rendering of \<^verbatim>\<open>response.status\<close> inside a template string.\<close>

definition digit :: "nat \<Rightarrow> char" where
  "digit d = (''0123456789'' ! d)"

fun decimal :: "nat \<Rightarrow> string" where
  "decimal n = (if n < 10 then [digit n] else decimal (n div 10) @ [digit (n mod 10)])"

declare decimal.simps [simp del]

text \<open>
  What \<^verbatim>\<open>fetch\<close> and the reading of the body can do. A rejected fetch throws
  either an \<^verbatim>\<open>Error\<close> (with a message) or some other value (rendered by the
  template string). A response that is not ok carries a status, a status text and a
  body that is JSON with an optional \<^verbatim>\<open>message\<close> field or not JSON at all.
  An ok response has a body that parses to a value or makes
  \<^verbatim>\<open>response.json()\<close> throw an \<^verbatim>\<open>Error\<close>.
\<close>

datatype thrown = ErrorObject string | OtherValue string

datatype error_body = NotJson | ErrorJson "string option"

datatype 'a fetched =
    Rejected thrown
  | NotOk nat string error_body
  | OkUnreadable string
  | OkJson 'a

text \<open>
  The usage fetch of \<^verbatim>\<open>trackUsage\<close> resolves, rejects, or has not settled when
  the caller goes on; \<^verbatim>\<open>fetch\<close> reports every failure through its promise.
\<close>

datatype tracked = Delivered | Undelivered thrown | Unsettled

text \<open>
  \<^verbatim>\<open>trackUsage\<close> starts the fetch, attaches \<^verbatim>\<open>.catch(() => {})\<close> and returns
  without waiting for it: whatever the fetch does, the promise of
  \<^verbatim>\<open>trackUsage\<close> is fulfilled. The result is what the awaiting caller sees:
  \<open>Inl\<close> would be an exception thrown into it.
\<close>

definition trackUsage :: "tracked \<Rightarrow> string \<Rightarrow> string \<Rightarrow> session \<Rightarrow> (thrown + unit) \<times> session" where
  "trackUsage t endpoint method s =
     (let s' = s\<lparr>detached := detached s @ [(endpoint, method)]\<rparr> in
      case t of
        Delivered \<Rightarrow> (Inr (), s')
      | Undelivered e \<Rightarrow> (Inr (), s')
      | Unsettled \<Rightarrow> (Inr (), s'))"

definition api_failed :: "nat \<Rightarrow> string \<Rightarrow> string" where
  "api_failed st txt = ''API request failed: '' @ decimal st @ '' '' @ txt"

text \<open>The outer \<^verbatim>\<open>catch\<close> of \<^verbatim>\<open>request\<close>: an Error is thrown on, anything else is wrapped.\<close>

definition rethrow :: "thrown \<Rightarrow> string" where
  "rethrow e = (case e of ErrorObject m \<Rightarrow> m | OtherValue v \<Rightarrow> ''Network error: '' @ v)"

definition request ::
  "tracked \<Rightarrow> string \<Rightarrow> string \<Rightarrow> json \<Rightarrow> 'a fetched \<Rightarrow> session \<Rightarrow> (string + 'a) \<times> session" where
  "request t method endpoint body f s =
     (let s1 = issue (Http method endpoint body) s in
      case f of
        Rejected e \<Rightarrow> (Inl (rethrow e), s1)
      | NotOk st txt b \<Rightarrow>
          (Inl (case b of
                  NotJson \<Rightarrow> api_failed st txt
                | ErrorJson None \<Rightarrow> api_failed st txt
                | ErrorJson (Some m) \<Rightarrow> if truthy m then m else api_failed st txt), s1)
      | OkUnreadable m \<Rightarrow>
          (case trackUsage t endpoint method s1 of
             (Inl e, s2) \<Rightarrow> (Inl (rethrow e), s2)
           | (Inr u, s2) \<Rightarrow> (Inl m, s2))
      | OkJson v \<Rightarrow>
          (case trackUsage t endpoint method s1 of
             (Inl e, s2) \<Rightarrow> (Inl (rethrow e), s2)
           | (Inr u, s2) \<Rightarrow> (Inr v, s2)))"

text \<open>Entities as the API returns them, and the two shapes of a list answer.\<close>

record project =
  p_id :: string
  p_name :: string
  p_description :: "string option"
  p_created_at :: string

datatype 'a listing = Wrapped "'a list" | Bare "'a list"

text \<open>\<^verbatim>\<open>response.projects || response\<close>: an array, even an empty one, is truthy.\<close>

definition unwrap :: "'a listing \<Rightarrow> 'a list" where
  "unwrap r = (case r of Wrapped xs \<Rightarrow> xs | Bare xs \<Rightarrow> xs)"

text \<open>A created project comes back under \<^verbatim>\<open>project\<close> or bare.\<close>

datatype created = UnderProject project | BareProject project

definition created_project :: "created \<Rightarrow> project" where
  "created_project r = (case r of UnderProject p \<Rightarrow> p | BareProject p \<Rightarrow> p)"

record memory =
  m_id :: string
  m_content :: string
  m_memory_type :: "string option"
  m_importance :: real
  m_created_at :: string

text \<open>
  What the API answers to each request a handler can issue during one tool call.
  The answer to \<^verbatim>\<open>GET /projects/current\<close> is the \<^verbatim>\<open>project\<close> field of the body.
\<close>

record backend =
  usage :: tracked
  current_answer :: "project option fetched"
  projects_answer :: "project listing fetched"
  set_current_answer :: "unit fetched"
  create_answer :: "created fetched"
  store_answer :: "memory fetched"
  search_answer :: "json listing fetched"
  memories_answer :: "memory listing fetched"

definition getCurrentProject :: "backend \<Rightarrow> session \<Rightarrow> (string + project option) \<times> session" where
  "getCurrentProject b s = request (usage b) ''GET'' ''/projects/current'' JUndefined (current_answer b) s"

definition listProjects :: "backend \<Rightarrow> session \<Rightarrow> (string + project listing) \<times> session" where
  "listProjects b s = request (usage b) ''GET'' ''/projects'' JUndefined (projects_answer b) s"

definition setCurrentProject :: "backend \<Rightarrow> string \<Rightarrow> session \<Rightarrow> (string + unit) \<times> session" where
  "setCurrentProject b projectId s =
     request (usage b) ''PUT'' ''/projects/current'' (JObject [(''projectId'', JString projectId)])
       (set_current_answer b) s"

definition createProject ::
  "backend \<Rightarrow> string \<Rightarrow> string option \<Rightarrow> session \<Rightarrow> (string + created) \<times> session" where
  "createProject b name description s =
     request (usage b) ''POST'' ''/projects''
       (JObject [(''name'', JString name), (''description'', opt_string description)])
       (create_answer b) s"

subsection \<open>Resolution of the current project\<close>

definition no_project_available :: string where
  "no_project_available = ''No project available. Please create a project first using create_project.''"

text \<open>\<^verbatim>\<open>project && project.id\<close> on the answer of \<^verbatim>\<open>getCurrentProject\<close>; a failed
  request is caught and counts as no marked project.\<close>

definition marked :: "(string + project option) \<Rightarrow> string option" where
  "marked r = (case r of
                 Inl e \<Rightarrow> None
               | Inr None \<Rightarrow> None
               | Inr (Some p) \<Rightarrow> if truthy (p_id p) then Some (p_id p) else None)"

text \<open>The projects of the answer of \<^verbatim>\<open>listProjects\<close>; a failed request is caught
  and leaves nothing to adopt.\<close>

definition listed :: "(string + project listing) \<Rightarrow> project list" where
  "listed r = (case r of Inl e \<Rightarrow> [] | Inr l \<Rightarrow> unwrap l)"

definition ensureCurrentProject :: "backend \<Rightarrow> session \<Rightarrow> (string + string) \<times> session" where
  "ensureCurrentProject b s =
     (case held (currentProjectId s) of
        Some pid \<Rightarrow> (Inr pid, s)
      | None \<Rightarrow>
          (case getCurrentProject b s of (r1, s1) \<Rightarrow>
             (case marked r1 of
                Some pid \<Rightarrow> (Inr pid, s1\<lparr>currentProjectId := Some pid\<rparr>)
              | None \<Rightarrow>
                  (case listProjects b s1 of (r2, s2) \<Rightarrow>
                     (case listed r2 of
                        [] \<Rightarrow> (Inl no_project_available, s2)
                      | p # ps \<Rightarrow>
                          (case setCurrentProject b (p_id p) (s2\<lparr>currentProjectId := Some (p_id p)\<rparr>) of
                             (Inl e, s3) \<Rightarrow> (Inl no_project_available, s3)
                           | (Inr u, s3) \<Rightarrow> (Inr (p_id p), s3)))))))"

subsection \<open>Handlers of the hosted server\<close>

definition error_envelope :: "string \<Rightarrow> outcome" where
  "error_envelope m = Envelope (Text (''Error: '' @ m))"

definition set_current_project_remote :: "backend \<Rightarrow> string \<Rightarrow> session \<Rightarrow> outcome \<times> session" where
  "set_current_project_remote b projectId s =
     (case setCurrentProject b projectId (s\<lparr>currentProjectId := Some projectId\<rparr>) of
        (Inl e, s1) \<Rightarrow> (error_envelope e, s1)
      | (Inr u, s1) \<Rightarrow> (Envelope (Text (''Current project set to: '' @ projectId)), s1))"

definition create_project_remote ::
  "backend \<Rightarrow> string \<Rightarrow> string option \<Rightarrow> session \<Rightarrow> outcome \<times> session" where
  "create_project_remote b name description s =
     (case createProject b name description s of
        (Inl e, s1) \<Rightarrow> (error_envelope e, s1)
      | (Inr r, s1) \<Rightarrow>
          (let p = created_project r in
           (Envelope (Serialized (JObject
              [(''id'', JString (p_id p)),
               (''name'', JString (p_name p)),
               (''description'', opt_string (p_description p)),
               (''created_at'', JString (p_created_at p))])), s1)))"

text \<open>\<^verbatim>\<open>importance || 5\<close> and \<^verbatim>\<open>limit || 10\<close>: an absent number and zero are falsy.\<close>

definition or_number :: "real option \<Rightarrow> real \<Rightarrow> real" where
  "or_number v d = (case v of None \<Rightarrow> d | Some x \<Rightarrow> if x = 0 then d else x)"

definition or_string :: "string option \<Rightarrow> string \<Rightarrow> string" where
  "or_string v d = (case v of None \<Rightarrow> d | Some x \<Rightarrow> if truthy x then x else d)"

definition memory_project_required :: string where
  "memory_project_required = ''Project ID is required for memory operations''"

definition storeMemory ::
  "backend \<Rightarrow> string \<Rightarrow> string \<Rightarrow> string option \<Rightarrow> real \<Rightarrow> session \<Rightarrow> (string + memory) \<times> session" where
  "storeMemory b projectId content memoryType importance s =
     (if \<not> truthy projectId then (Inl memory_project_required, s)
      else request (usage b) ''POST'' (''/projects/'' @ projectId @ ''/memories'')
             (JObject [(''content'', JString content),
                       (''memoryType'', opt_string memoryType),
                       (''importance'', JNumber importance)])
             (store_answer b) s)"

definition searchMemory ::
  "backend \<Rightarrow> string \<Rightarrow> string \<Rightarrow> real \<Rightarrow> session \<Rightarrow> (string + json listing) \<times> session" where
  "searchMemory b projectId query limit s =
     (if \<not> truthy projectId then (Inl memory_project_required, s)
      else request (usage b) ''POST'' (''/projects/'' @ projectId @ ''/memories/search'')
             (JObject [(''query'', JString query), (''limit'', JNumber limit)])
             (search_answer b) s)"

text \<open>The handlers only ever ask for 20 or 10 memories; the number is rendered here.\<close>

definition getMemories ::
  "backend \<Rightarrow> string \<Rightarrow> nat \<Rightarrow> session \<Rightarrow> (string + memory listing) \<times> session" where
  "getMemories b projectId limit s =
     (if \<not> truthy projectId then (Inl memory_project_required, s)
      else request (usage b) ''GET'' (''/projects/'' @ projectId @ ''/memories?limit='' @ decimal limit)
             JUndefined (memories_answer b) s)"

text \<open>
  The check mark U+2705 that opens the success texts of the self-hosted server, and the
  seven bytes that stand in its place in \<^verbatim>\<open>src/index.ts\<close> (the mark read as
  Windows-1252 and encoded again).
\<close>

definition check_mark :: string where
  "check_mark = [CHR 0xE2, CHR 0x9C, CHR 0x85]"

definition garbled_check_mark :: string where
  "garbled_check_mark = [CHR 0xC3, CHR 0xA2, CHR 0xC5, CHR 0x93, CHR 0xE2, CHR 0x80, CHR 0xA6]"

definition store_memory_remote ::
  "backend \<Rightarrow> string \<Rightarrow> string option \<Rightarrow> real option \<Rightarrow> session \<Rightarrow> outcome \<times> session" where
  "store_memory_remote b content memoryType importance s =
     (case ensureCurrentProject b s of
        (Inl e, s1) \<Rightarrow> (error_envelope e, s1)
      | (Inr projectId, s1) \<Rightarrow>
          (case storeMemory b projectId content memoryType (or_number importance 5) s1 of
             (Inl e, s2) \<Rightarrow> (error_envelope e, s2)
           | (Inr m, s2) \<Rightarrow>
               (Envelope (Template
                  [Lit (garbled_check_mark @ '' Memory stored successfully'' @ nl @ ''ID: ''),
                   Val (JString (m_id m)),
                   Lit (nl @ ''Type: '' @ or_string memoryType ''general'' @ nl @ ''Importance: ''),
                   Val (JNumber (or_number importance 5)),
                   Lit ''/10'']), s2)))"

definition memory_view :: "memory \<Rightarrow> json" where
  "memory_view m = JObject
     [(''id'', JString (m_id m)),
      (''content'', JString (m_content m)),
      (''type'', opt_string (m_memory_type m)),
      (''importance'', JNumber (m_importance m)),
      (''created_at'', JString (m_created_at m))]"

text \<open>
  The handler of \<^verbatim>\<open>get_memories\<close> is \<^verbatim>\<open>async () => ...\<close>: the validated
  \<^verbatim>\<open>memoryType\<close> and \<^verbatim>\<open>timeRange\<close> (start, end) reach it and are not read.
\<close>

definition get_memories_remote ::
  "backend \<Rightarrow> string option \<Rightarrow> (string option \<times> string option) option \<Rightarrow> session \<Rightarrow> outcome \<times> session" where
  "get_memories_remote b memoryType timeRange s =
     (case ensureCurrentProject b s of
        (Inl e, s1) \<Rightarrow> (error_envelope e, s1)
      | (Inr projectId, s1) \<Rightarrow>
          (case getMemories b projectId 20 s1 of
             (Inl e, s2) \<Rightarrow> (error_envelope e, s2)
           | (Inr r, s2) \<Rightarrow> (Envelope (Serialized (JArray (map memory_view (unwrap r)))), s2)))"

subsection \<open>Parameter schemas\<close>

text \<open>
  A raw argument of a tool call is absent, a value of the expected JavaScript type, or
  something else (for a number also \<^verbatim>\<open>NaN\<close>). The checks are those of the zod
  schemas the tools declare: \<^verbatim>\<open>z.number().min(lo).max(hi)\<close> with
  \<^verbatim>\<open>.optional()\<close> or \<^verbatim>\<open>.default(d)\<close>, and \<^verbatim>\<open>z.string().min(1)\<close>.
  \<open>None\<close> is a schema violation.
\<close>

datatype 'a arg = Absent | Given 'a | IllTyped

definition optional_number :: "real \<Rightarrow> real \<Rightarrow> real arg \<Rightarrow> real option option" where
  "optional_number lo hi a =
     (case a of
        Absent \<Rightarrow> Some None
      | Given x \<Rightarrow> if lo \<le> x \<and> x \<le> hi then Some (Some x) else None
      | IllTyped \<Rightarrow> None)"

definition default_number :: "real \<Rightarrow> real \<Rightarrow> real \<Rightarrow> real arg \<Rightarrow> real option" where
  "default_number lo hi d a =
     (case a of
        Absent \<Rightarrow> Some d
      | Given x \<Rightarrow> if lo \<le> x \<and> x \<le> hi then Some x else None
      | IllTyped \<Rightarrow> None)"

definition nonempty_string :: "string arg \<Rightarrow> string option" where
  "nonempty_string a =
     (case a of
        Absent \<Rightarrow> None
      | Given x \<Rightarrow> if 1 \<le> length x then Some x else None
      | IllTyped \<Rightarrow> None)"

definition search_memory_remote_handler ::
  "backend \<Rightarrow> string \<Rightarrow> real option \<Rightarrow> session \<Rightarrow> outcome \<times> session" where
  "search_memory_remote_handler b query limit s =
     (case ensureCurrentProject b s of
        (Inl e, s1) \<Rightarrow> (error_envelope e, s1)
      | (Inr projectId, s1) \<Rightarrow>
          (case searchMemory b projectId query (or_number limit 10) s1 of
             (Inl e, s2) \<Rightarrow> (error_envelope e, s2)
           | (Inr r, s2) \<Rightarrow> (Envelope (Serialized (JArray (unwrap r))), s2)))"

text \<open>The tool as registered: \<^verbatim>\<open>limit: z.number().min(1).max(50).optional()\<close>.\<close>

definition search_memory_remote ::
  "backend \<Rightarrow> string arg \<Rightarrow> real arg \<Rightarrow> session \<Rightarrow> outcome \<times> session" where
  "search_memory_remote b query limit s =
     (case nonempty_string query of
        None \<Rightarrow> (ValidationError, s)
      | Some q \<Rightarrow>
          (case optional_number 1 50 limit of
             None \<Rightarrow> (ValidationError, s)
           | Some l \<Rightarrow> search_memory_remote_handler b q l s))"

section \<open>The self-hosted server\<close>

text \<open>
  The store answers a query with \<^verbatim>\<open>{ data, error }\<close>, or the client call throws.
  The tables are those of the schema in \<^verbatim>\<open>README.md\<close>: \<^verbatim>\<open>status\<close> and
  \<^verbatim>\<open>priority\<close> are \<^verbatim>\<open>TEXT\<close> columns restricted by a \<^verbatim>\<open>CHECK\<close> to the
  listed words, \<^verbatim>\<open>created_at\<close> is a time stamp, and \<^verbatim>\<open>tasks\<close> has no column for
  a parent task.
\<close>

datatype db_error = DbError string string

definition error_code :: "db_error \<Rightarrow> string" where
  "error_code e = (case e of DbError c m \<Rightarrow> c)"

definition error_message :: "db_error \<Rightarrow> string" where
  "error_message e = (case e of DbError c m \<Rightarrow> m)"

datatype 'a answer = Threw string | Failed db_error | Data 'a

datatype status = Pending | In_progress | Completed | Cancelled

datatype priority = Low | Medium | High

definition status_text :: "status \<Rightarrow> string" where
  "status_text v = (case v of Pending \<Rightarrow> ''pending'' | In_progress \<Rightarrow> ''in_progress''
                     | Completed \<Rightarrow> ''completed'' | Cancelled \<Rightarrow> ''cancelled'')"

definition priority_text :: "priority \<Rightarrow> string" where
  "priority_text v = (case v of Low \<Rightarrow> ''low'' | Medium \<Rightarrow> ''medium'' | High \<Rightarrow> ''high'')"

record project_row =
  pr_id :: string
  pr_name :: string
  pr_description :: "string option"
  pr_metadata :: json
  pr_created_at :: nat

record memory_row =
  mr_id :: string
  mr_project_id :: string
  mr_content :: string
  mr_memory_type :: "string option"
  mr_importance :: int
  mr_created_at :: nat

record task =
  t_id :: string
  t_project_id :: string
  t_title :: string
  t_description :: "string option"
  t_status :: status
  t_priority :: priority
  t_dependencies :: "string list"
  t_created_at :: nat

record hit =
  h_content :: string
  h_memory_type :: "string option"
  h_importance :: int
  h_created_at :: nat
  h_similarity :: "real option"

text \<open>
  The world of the self-hosted server during one tool call: whether reads succeed
  (\<open>condition\<close>), the rows of the three tables, what the store answers to an
  insert, what the embedding service answers (\<open>Inl\<close>: it throws), and what the
  stored procedure \<^verbatim>\<open>search_memories\<close> answers.
\<close>

record database =
  condition :: "unit answer"
  project_rows :: "project_row list"
  memory_rows :: "memory_row list"
  task_rows :: "task list"
  inserted_project :: "project_row answer"
  inserted_task :: "task answer"
  inserted_tasks :: "task list answer"
  embedded :: "string + real list"
  similar :: "hit list answer"

definition select :: "database \<Rightarrow> 'a list \<Rightarrow> 'a list answer" where
  "select db rows = (case condition db of Threw m \<Rightarrow> Threw m | Failed e \<Rightarrow> Failed e | Data u \<Rightarrow> Data rows)"

definition no_single_row :: db_error where
  "no_single_row = DbError ''PGRST116'' ''JSON object requested, multiple (or no) rows returned''"

text \<open>\<^verbatim>\<open>.single()\<close>: exactly one row, or the error above.\<close>

definition single :: "'a list answer \<Rightarrow> 'a answer" where
  "single a =
     (case a of
        Threw m \<Rightarrow> Threw m
      | Failed e \<Rightarrow> Failed e
      | Data rows \<Rightarrow> (case rows of [] \<Rightarrow> Failed no_single_row
                                 | [r] \<Rightarrow> Data r
                                 | r # r' # rs \<Rightarrow> Failed no_single_row))"

text \<open>\<^verbatim>\<open>.order(...)\<close>: the rows sorted by a comparison, rows that compare equal kept in
  table order.\<close>

fun insert_by :: "('a \<Rightarrow> 'a \<Rightarrow> bool) \<Rightarrow> 'a \<Rightarrow> 'a list \<Rightarrow> 'a list" where
  "insert_by le x [] = [x]"
| "insert_by le x (y # ys) = (if le x y then x # y # ys else y # insert_by le x ys)"

definition order_by :: "('a \<Rightarrow> 'a \<Rightarrow> bool) \<Rightarrow> 'a list \<Rightarrow> 'a list" where
  "order_by le xs = foldr (insert_by le) xs []"

text \<open>
  \<^verbatim>\<open>String.prototype.trim\<close> removes white space and line terminators from both
  ends. A string is its UTF-8 bytes here, so a white-space character is one of the byte
  sequences below: U+0009 to U+000D, U+0020, U+00A0, U+1680, U+2000 to U+200A, U+2028,
  U+2029, U+202F, U+205F, U+3000 and U+FEFF.
\<close>

definition white_space :: "string list" where
  "white_space =
     [[CHR 0x09], [CHR 0x0A], [CHR 0x0B], [CHR 0x0C], [CHR 0x0D], [CHR 0x20],
      [CHR 0xC2, CHR 0xA0],
      [CHR 0xE1, CHR 0x9A, CHR 0x80],
      [CHR 0xE2, CHR 0x80, CHR 0x80], [CHR 0xE2, CHR 0x80, CHR 0x81], [CHR 0xE2, CHR 0x80, CHR 0x82],
      [CHR 0xE2, CHR 0x80, CHR 0x83], [CHR 0xE2, CHR 0x80, CHR 0x84], [CHR 0xE2, CHR 0x80, CHR 0x85],
      [CHR 0xE2, CHR 0x80, CHR 0x86], [CHR 0xE2, CHR 0x80, CHR 0x87], [CHR 0xE2, CHR 0x80, CHR 0x88],
      [CHR 0xE2, CHR 0x80, CHR 0x89], [CHR 0xE2, CHR 0x80, CHR 0x8A],
      [CHR 0xE2, CHR 0x80, CHR 0xA8], [CHR 0xE2, CHR 0x80, CHR 0xA9], [CHR 0xE2, CHR 0x80, CHR 0xAF],
      [CHR 0xE2, CHR 0x81, CHR 0x9F],
      [CHR 0xE3, CHR 0x80, CHR 0x80],
      [CHR 0xEF, CHR 0xBB, CHR 0xBF]]"

text \<open>The first of the sequences \<open>ws\<close> the string starts with.\<close>

definition leading :: "string list \<Rightarrow> string \<Rightarrow> string option" where
  "leading ws s = find (\<lambda>w. w \<noteq> [] \<and> take (length w) s = w) ws"

function strip :: "string list \<Rightarrow> string \<Rightarrow> string" where
  "strip ws s = (case leading ws s of None \<Rightarrow> s | Some w \<Rightarrow> strip ws (drop (length w) s))"
  by pat_completeness auto
termination
proof (relation "measure (\<lambda>(ws, s). length s)")
  show "wf (measure (\<lambda>(ws, s). length s))"
    by simp
next
  fix ws s w
  assume "leading ws s = Some w"
  then have "w \<noteq> []" and "take (length w) s = w"
    by (auto simp add: leading_def find_Some_iff)
  then have "0 < length w" and "length (take (length w) s) = length w"
    by simp_all
  then have "0 < length w" and "length w \<le> length s"
    by simp_all
  then show "((ws, drop (length w) s), (ws, s)) \<in> measure (\<lambda>(ws, s). length s)"
    by (cases w) auto
qed

declare strip.simps [simp del]

text \<open>At the end of the string the sequences are met last byte first.\<close>

definition trim :: "string \<Rightarrow> string" where
  "trim s = rev (strip (map rev white_space) (rev (strip white_space s)))"

definition no_current_project :: string where
  "no_current_project = ''Error: No current project set. Please create or select a project first using create_project or set_current_project.''"

definition no_current_project_thrown :: string where
  "no_current_project_thrown = ''No current project set. Please create or select a project first.''"

subsection \<open>Projects\<close>

definition project_row_view :: "project_row \<Rightarrow> json" where
  "project_row_view p = JObject
     [(''id'', JString (pr_id p)),
      (''name'', JString (pr_name p)),
      (''description'', (case pr_description p of None \<Rightarrow> JNull | Some d \<Rightarrow> JString d)),
      (''metadata'', pr_metadata p),
      (''created_at'', JInstant (pr_created_at p))]"

definition create_project_direct ::
  "database \<Rightarrow> string \<Rightarrow> string option \<Rightarrow> json option \<Rightarrow> session \<Rightarrow> outcome \<times> session" where
  "create_project_direct db name description metadata s =
     (if \<not> truthy (trim name) then (Envelope (Text ''Error: Project name cannot be empty.''), s)
      else
        (let row = JObject
               [(''name'', JString (trim name)),
                (''description'', (case description of
                                     None \<Rightarrow> JNull
                                   | Some d \<Rightarrow> if truthy (trim d) then JString (trim d) else JNull)),
                (''metadata'', (case metadata of None \<Rightarrow> JObject [] | Some m \<Rightarrow> m))];
             s1 = issue (Insert ''projects'' [row]) s
         in case inserted_project db of
              Threw m \<Rightarrow> (error_envelope m, s1)
            | Failed e \<Rightarrow>
                (if error_code e = ''23505''
                 then (Envelope (Text (''Error: A project named '' @ dq @ name @ dq @ '' already exists. Please choose a different name.'')), s1)
                 else (Envelope (Text (''Error creating project: '' @ error_message e)), s1))
            | Data d \<Rightarrow>
                (Envelope (Template
                   [Lit (check_mark @ '' Project created and set as current'' @ nl @ ''Name: '' @ pr_name d @ nl
                         @ ''ID: '' @ pr_id d @ nl @ ''Description: '' @ or_string (pr_description d) ''None'' @ nl
                         @ ''Created: ''),
                    Val (JInstant (pr_created_at d))]),
                 s1\<lparr>currentProjectId := Some (pr_id d)\<rparr>)))"

definition get_current_project_direct :: "database \<Rightarrow> session \<Rightarrow> outcome \<times> session" where
  "get_current_project_direct db s =
     (case held (currentProjectId s) of
        None \<Rightarrow> (Envelope (Text ''No project currently selected''), s)
      | Some cur \<Rightarrow>
          (let s1 = issue (Select ''projects'') s in
           case single (select db (filter (\<lambda>p. pr_id p = cur) (project_rows db))) of
             Threw m \<Rightarrow> (Escaped m, s1)
           | Failed e \<Rightarrow> (Escaped (error_message e), s1)
           | Data d \<Rightarrow>
               (Envelope (Serialized (JObject
                  [(''project'', project_row_view d),
                   (''stats'', JObject
                      [(''memories'', JNumber (real (length (filter (\<lambda>m. mr_project_id m = cur) (memory_rows db))))),
                       (''tasks'', JNumber (real (length (filter (\<lambda>t. t_project_id t = cur) (task_rows db)))))])])),
                issue (Select ''tasks'') (issue (Select ''memories'') s1))))"

definition newest_project_first :: "project_row \<Rightarrow> project_row \<Rightarrow> bool" where
  "newest_project_first a b \<longleftrightarrow> pr_created_at b \<le> pr_created_at a"

definition list_projects_direct :: "database \<Rightarrow> session \<Rightarrow> outcome \<times> session" where
  "list_projects_direct db s =
     (let s1 = issue (Select ''projects'') s in
      case select db (order_by newest_project_first (project_rows db)) of
        Threw m \<Rightarrow> (Escaped m, s1)
      | Failed e \<Rightarrow> (Escaped (error_message e), s1)
      | Data rows \<Rightarrow> (Envelope (Serialized (JArray (map project_row_view rows))), s1))"

subsection \<open>Memories\<close>

fun join :: "'a list \<Rightarrow> 'a list list \<Rightarrow> 'a list" where
  "join sep [] = []"
| "join sep [x] = x"
| "join sep (x # y # ys) = x @ sep @ join sep (y # ys)"

definition numbered :: "'a list \<Rightarrow> (nat \<times> 'a) list" where
  "numbered xs = zip [0..<length xs] xs"

definition magnifier :: string where
  "magnifier = [CHR 0xF0, CHR 0x9F, CHR 0x94, CHR 0x8D]"

definition folder :: string where
  "folder = [CHR 0xF0, CHR 0x9F, CHR 0x93, CHR 0x81]"

definition hit_lines :: "nat \<Rightarrow> hit \<Rightarrow> piece list" where
  "hit_lines index r =
     [Lit (decimal (index + 1) @ ''. [''),
      (case h_similarity r of
         None \<Rightarrow> Lit ''N/A''
       | Some x \<Rightarrow> if x = 0 then Lit ''N/A'' else Val (JNumber (x * 100))),
      Lit (''% match] '' @ h_content r @ nl @ ''   Type: '' @ or_string (h_memory_type r) ''general''
           @ '' | Importance: ''),
      Val (JNumber (of_int (h_importance r))),
      Lit ''/10 | Created: '',
      Val (JInstant (h_created_at r))]"

definition search_memory_direct_handler ::
  "database \<Rightarrow> string \<Rightarrow> real \<Rightarrow> session \<Rightarrow> outcome \<times> session" where
  "search_memory_direct_handler db query limit s =
     (case held (currentProjectId s) of
        None \<Rightarrow> (Envelope (Text no_current_project), s)
      | Some cur \<Rightarrow>
          (if \<not> truthy (trim query) then (Envelope (Text ''Error: Search query cannot be empty.''), s)
           else
             (let s1 = issue (Embedding (trim query)) s in
              case embedded db of
                Inl m \<Rightarrow> (error_envelope m, s1)
              | Inr v \<Rightarrow>
                  (let s2 = issue (Rpc ''search_memories''
                              (JObject [(''query_embedding'', JArray (map JNumber v)),
                                        (''match_count'', JNumber limit),
                                        (''project_id'', JString cur)])) s1 in
                   case similar db of
                     Threw m \<Rightarrow> (error_envelope m, s2)
                   | Failed e \<Rightarrow> (Envelope (Text (''Error searching memories: '' @ error_message e)), s2)
                   | Data results \<Rightarrow>
                       (if results = []
                        then (Envelope (Text (''No memories found for query: '' @ dq @ query @ dq @ nl @ nl
                                @ ''Try:'' @ nl @ ''- Using different keywords'' @ nl @ ''- Being more specific'' @ nl
                                @ ''- Checking if memories exist with get_memories'')), s2)
                        else (Envelope (Template
                                (Lit (magnifier @ '' Found '' @ decimal (length results) @ '' memories for ''
                                      @ dq @ query @ dq @ '':'' @ nl @ nl)
                                 # join [Lit (nl @ nl)] (map (\<lambda>(i, r). hit_lines i r) (numbered results)))),
                              s2))))))"

text \<open>The tool as registered: \<^verbatim>\<open>limit: z.number().min(1).max(100).default(10)\<close>.\<close>

definition search_memory_direct ::
  "database \<Rightarrow> string arg \<Rightarrow> real arg \<Rightarrow> session \<Rightarrow> outcome \<times> session" where
  "search_memory_direct db query limit s =
     (case nonempty_string query of
        None \<Rightarrow> (ValidationError, s)
      | Some q \<Rightarrow>
          (case default_number 1 100 10 limit of
             None \<Rightarrow> (ValidationError, s)
           | Some l \<Rightarrow> search_memory_direct_handler db q l s))"

text \<open>
  The query of \<^verbatim>\<open>get_memories\<close>: the rows of the current project, of the type
  when \<^verbatim>\<open>memoryType\<close> is truthy, not older than \<^verbatim>\<open>timeRange.start\<close> and not
  younger than \<^verbatim>\<open>timeRange.end\<close> when given, by descending \<^verbatim>\<open>created_at\<close>.
  The bounds are the instants the validated date-time strings denote.
\<close>

definition newest_first :: "memory_row \<Rightarrow> memory_row \<Rightarrow> bool" where
  "newest_first a b \<longleftrightarrow> mr_created_at b \<le> mr_created_at a"

definition memory_matches ::
  "string \<Rightarrow> string option \<Rightarrow> (nat option \<times> nat option) option \<Rightarrow> memory_row \<Rightarrow> bool" where
  "memory_matches cur memoryType timeRange m \<longleftrightarrow>
     mr_project_id m = cur
     \<and> (case memoryType of None \<Rightarrow> True
         | Some ty \<Rightarrow> if truthy ty then mr_memory_type m = Some ty else True)
     \<and> (case timeRange of None \<Rightarrow> True
         | Some (None, e) \<Rightarrow> True
         | Some (Some st, e) \<Rightarrow> st \<le> mr_created_at m)
     \<and> (case timeRange of None \<Rightarrow> True
         | Some (st, None) \<Rightarrow> True
         | Some (st, Some e) \<Rightarrow> mr_created_at m \<le> e)"

definition memories_query ::
  "string \<Rightarrow> string option \<Rightarrow> (nat option \<times> nat option) option \<Rightarrow> memory_row list \<Rightarrow> memory_row list" where
  "memories_query cur memoryType timeRange rows =
     order_by newest_first (filter (memory_matches cur memoryType timeRange) rows)"

definition memory_lines :: "nat \<Rightarrow> memory_row \<Rightarrow> piece list" where
  "memory_lines index m =
     [Lit (decimal (index + 1) @ ''. '' @ mr_content m @ nl @ ''   ID: '' @ mr_id m @ nl
           @ ''   Type: '' @ or_string (mr_memory_type m) ''general'' @ '' | Importance: ''),
      Val (JNumber (of_int (mr_importance m))),
      Lit (''/10'' @ nl @ ''   Created: ''),
      Val (JInstant (mr_created_at m))]"

definition get_memories_direct ::
  "database \<Rightarrow> string option \<Rightarrow> (nat option \<times> nat option) option \<Rightarrow> session \<Rightarrow> outcome \<times> session" where
  "get_memories_direct db memoryType timeRange s =
     (case held (currentProjectId s) of
        None \<Rightarrow> (Envelope (Text no_current_project), s)
      | Some cur \<Rightarrow>
          (let s1 = issue (Select ''memories'') s in
           case select db (memories_query cur memoryType timeRange (memory_rows db)) of
             Threw m \<Rightarrow> (error_envelope m, s1)
           | Failed e \<Rightarrow> (Envelope (Text (''Error retrieving memories: '' @ error_message e)), s1)
           | Data rows \<Rightarrow>
               (if rows = []
                then (Envelope (Text (''No memories found''
                        @ (case memoryType of
                             None \<Rightarrow> []
                           | Some ty \<Rightarrow> if truthy ty then '' of type '' @ dq @ ty @ dq else [])
                        @ ''. Use store_memory to add some memories first.'')), s1)
                else (Envelope (Template
                        (Lit (folder @ '' Found '' @ decimal (length rows) @ '' memories:'' @ nl @ nl)
                         # join [Lit (nl @ nl)] (map (\<lambda>(i, m). memory_lines i m) (numbered rows)))),
                      s1))))"

subsection \<open>Tasks\<close>

definition create_task_direct ::
  "database \<Rightarrow> string \<Rightarrow> string option \<Rightarrow> priority option \<Rightarrow> string list option \<Rightarrow> session
     \<Rightarrow> outcome \<times> session" where
  "create_task_direct db title description priority dependencies s =
     (case held (currentProjectId s) of
        None \<Rightarrow> (Escaped no_current_project_thrown, s)
      | Some cur \<Rightarrow>
          (let row = JObject
                 [(''project_id'', JString cur),
                  (''title'', JString title),
                  (''description'', opt_string description),
                  (''priority'', JString (case priority of None \<Rightarrow> ''medium'' | Some p \<Rightarrow> priority_text p)),
                  (''dependencies'', JArray (map JString (case dependencies of None \<Rightarrow> [] | Some ds \<Rightarrow> ds))),
                  (''status'', JString ''pending'')];
               s1 = issue (Insert ''tasks'' [row]) s
           in case inserted_task db of
                Threw m \<Rightarrow> (Escaped m, s1)
              | Failed e \<Rightarrow> (Escaped (error_message e), s1)
              | Data d \<Rightarrow> (Envelope (Text (''Task created: '' @ t_title d @ '' ('' @ t_id d @ '')'')), s1)))"

text \<open>
  The query of \<^verbatim>\<open>suggest_next_task\<close>:
  \<^verbatim>\<open>.in('status', ['pending', 'in_progress']).order('priority', { ascending: false })
  .order('created_at', { ascending: true }).limit(1)\<close>. The column \<^verbatim>\<open>priority\<close> is
  \<^verbatim>\<open>TEXT\<close>, so the store orders it as text.
\<close>

definition suggestion_order :: "task \<Rightarrow> task \<Rightarrow> bool" where
  "suggestion_order a b \<longleftrightarrow>
     priority_text (t_priority b) < priority_text (t_priority a)
     \<or> (priority_text (t_priority a) = priority_text (t_priority b) \<and> t_created_at a \<le> t_created_at b)"

definition open_task :: "string \<Rightarrow> task \<Rightarrow> bool" where
  "open_task pid t \<longleftrightarrow> t_project_id t = pid \<and> (t_status t = Pending \<or> t_status t = In_progress)"

definition suggestion_query :: "string \<Rightarrow> task list \<Rightarrow> task list" where
  "suggestion_query pid rows = take 1 (order_by suggestion_order (filter (open_task pid) rows))"

definition suggest_next_task_direct :: "database \<Rightarrow> session \<Rightarrow> outcome \<times> session" where
  "suggest_next_task_direct db s =
     (let s1 = issue (Select ''tasks'') s in
      case select db (suggestion_query (or_string (currentProjectId s) ''default'') (task_rows db)) of
        Threw m \<Rightarrow> (Escaped m, s1)
      | Failed e \<Rightarrow> (Escaped (error_message e), s1)
      | Data tasks \<Rightarrow>
          (case tasks of
             [] \<Rightarrow> (Envelope (Text ''No pending tasks found. Great job!''), s1)
           | t # ts \<Rightarrow>
               (Envelope (Text (''Suggested next task: '' @ t_title t @ '' (Priority: ''
                                @ priority_text (t_priority t) @ '')'')), s1)))"

text \<open>The three subtasks \<^verbatim>\<open>break_down_task\<close> derives from a task, and the row it
  inserts for each: the subtask's fields, then \<^verbatim>\<open>project_id\<close>, \<^verbatim>\<open>status\<close> and
  \<^verbatim>\<open>dependencies\<close>.\<close>

definition subtasks :: "task \<Rightarrow> (string \<times> json) list list" where
  "subtasks task =
     [[(''title'', JString (''Research: '' @ t_title task)),
       (''description'', JString (''Research and gather requirements for '' @ t_title task)),
       (''priority'', JString (priority_text (t_priority task)))],
      [(''title'', JString (''Implement: '' @ t_title task)),
       (''description'', JString (''Core implementation of '' @ t_title task)),
       (''priority'', JString (priority_text (t_priority task)))],
      [(''title'', JString (''Test: '' @ t_title task)),
       (''description'', JString (''Test and validate '' @ t_title task)),
       (''priority'', JString ''medium'')]]"

definition subtask_row :: "string \<Rightarrow> string \<Rightarrow> (string \<times> json) list \<Rightarrow> json" where
  "subtask_row cur taskId st =
     JObject (st @ [(''project_id'', JString cur),
                    (''status'', JString ''pending''),
                    (''dependencies'', JArray [JString taskId])])"

definition break_down_task_direct :: "database \<Rightarrow> string \<Rightarrow> session \<Rightarrow> outcome \<times> session" where
  "break_down_task_direct db taskId s =
     (case held (currentProjectId s) of
        None \<Rightarrow> (Escaped no_current_project_thrown, s)
      | Some cur \<Rightarrow>
          (let s1 = issue (Select ''tasks'') s in
           case single (select db (filter (\<lambda>t. t_id t = taskId) (task_rows db))) of
             Threw m \<Rightarrow> (Escaped m, s1)
           | Failed e \<Rightarrow> (Escaped (error_message e), s1)
           | Data task \<Rightarrow>
               (let s2 = issue (Insert ''tasks'' (map (subtask_row cur taskId) (subtasks task))) s1 in
                case inserted_tasks db of
                  Threw m \<Rightarrow> (Escaped m, s2)
                | Failed e \<Rightarrow> (Escaped (error_message e), s2)
                | Data created \<Rightarrow>
                    (Envelope (Text (''Task broken down into '' @ decimal (length created) @ '' subtasks:'' @ nl
                                     @ join nl (map (\<lambda>t. ''- '' @ t_title t) created))), s2))))"

section \<open>Reading the request log\<close>

text \<open>The value of a field of a JSON object, and the rows handed to the store's
  \<^verbatim>\<open>insert\<close> by the logged calls.\<close>

definition field :: "string \<Rightarrow> json \<Rightarrow> json option" where
  "field k v = (case v of JObject fs \<Rightarrow> map_of fs k | _ \<Rightarrow> None)"

definition inserted :: "call list \<Rightarrow> json list" where
  "inserted cs = concat (map (\<lambda>c. case c of Insert t rows \<Rightarrow> rows | _ \<Rightarrow> []) cs)"

section \<open>Concrete worlds\<close>

text \<open>Sessions, backends and stores on which the properties below are exercised.\<close>

definition fresh :: session where
  "fresh = \<lparr>currentProjectId = None, calls = [], detached = []\<rparr>"

definition unreachable :: backend where
  "unreachable =
     \<lparr>usage = Undelivered (ErrorObject ''fetch failed''),
      current_answer = Rejected (ErrorObject ''fetch failed''),
      projects_answer = Rejected (ErrorObject ''fetch failed''),
      set_current_answer = Rejected (ErrorObject ''fetch failed''),
      create_answer = Rejected (ErrorObject ''fetch failed''),
      store_answer = Rejected (ErrorObject ''fetch failed''),
      search_answer = Rejected (ErrorObject ''fetch failed''),
      memories_answer = Rejected (ErrorObject ''fetch failed'')\<rparr>"

definition alpha :: project where
  "alpha = \<lparr>p_id = ''p-alpha'', p_name = ''Alpha'', p_description = None, p_created_at = ''2025-05-25T14:33:55Z''\<rparr>"

definition beta :: project where
  "beta = \<lparr>p_id = ''p-beta'', p_name = ''Beta'', p_description = Some ''second'', p_created_at = ''2025-05-26T09:00:00Z''\<rparr>"

definition nameless :: project where
  "nameless = \<lparr>p_id = [], p_name = ''Gamma'', p_description = None, p_created_at = ''2025-05-27T09:00:00Z''\<rparr>"

definition marked_world :: backend where
  "marked_world = unreachable\<lparr>current_answer := OkJson (Some alpha)\<rparr>"

definition unmarked_world :: backend where
  "unmarked_world = unreachable
     \<lparr>current_answer := OkJson None,
      projects_answer := OkJson (Wrapped [beta, alpha]),
      set_current_answer := OkJson ()\<rparr>"

definition empty_world :: backend where
  "empty_world = unreachable
     \<lparr>current_answer := NotOk 404 ''Not Found'' (ErrorJson (Some ''No current project'')),
      projects_answer := OkJson (Bare [])\<rparr>"

definition nameless_world :: backend where
  "nameless_world = unreachable
     \<lparr>projects_answer := OkJson (Wrapped [nameless]),
      set_current_answer := OkJson ()\<rparr>"

definition alpha_id :: string where
  "alpha_id = ''3f2b8c1e-0d4a-4b6f-9a57-1c2d3e4f5a6b''"

definition offline :: database where
  "offline =
     \<lparr>condition = Failed (DbError ''08006'' ''connection failure''),
      project_rows = [],
      memory_rows = [],
      task_rows = [],
      inserted_project = Failed (DbError ''08006'' ''connection failure''),
      inserted_task = Failed (DbError ''08006'' ''connection failure''),
      inserted_tasks = Failed (DbError ''08006'' ''connection failure''),
      embedded = Inl ''Connection error.'',
      similar = Failed (DbError ''08006'' ''connection failure'')\<rparr>"

definition in_alpha :: session where
  "in_alpha = \<lparr>currentProjectId = Some alpha_id, calls = [], detached = []\<rparr>"

definition urgent :: task where
  "urgent =
     \<lparr>t_id = ''7a1d2c3b-4e5f-4a6b-8c7d-9e0f1a2b3c4d'', t_project_id = alpha_id,
      t_title = ''Fix login outage'', t_description = None, t_status = Pending,
      t_priority = High, t_dependencies = [], t_created_at = 1\<rparr>"

definition routine :: task where
  "routine =
     \<lparr>t_id = ''8b2e3d4c-5f6a-4b7c-9d8e-0f1a2b3c4d5e'', t_project_id = alpha_id,
      t_title = ''Tidy changelog'', t_description = None, t_status = Pending,
      t_priority = Medium, t_dependencies = [], t_created_at = 2\<rparr>"

definition minor :: task where
  "minor =
     \<lparr>t_id = ''9c3f4e5d-6a7b-4c8d-8e9f-1a2b3c4d5e6f'', t_project_id = alpha_id,
      t_title = ''Rename helper'', t_description = None, t_status = In_progress,
      t_priority = Low, t_dependencies = [], t_created_at = 3\<rparr>"

definition child :: "string \<Rightarrow> priority \<Rightarrow> nat \<Rightarrow> task" where
  "child title p n =
     \<lparr>t_id = ''c0ffee00-0000-4000-8000-00000000000'' @ decimal n, t_project_id = alpha_id,
      t_title = title, t_description = None, t_status = Pending,
      t_priority = p, t_dependencies = [t_id urgent], t_created_at = n\<rparr>"

definition planning :: database where
  "planning = offline
     \<lparr>condition := Data (),
      task_rows := [urgent, routine, minor],
      inserted_tasks := Data [child ''Research: Fix login outage'' High 4,
                              child ''Implement: Fix login outage'' High 5,
                              child ''Test: Fix login outage'' Medium 6]\<rparr>"

definition decision_note :: memory where
  "decision_note =
     \<lparr>m_id = ''m-1'', m_content = ''Use PostgreSQL'', m_memory_type = Some ''decision'',
      m_importance = 8, m_created_at = ''2025-05-20T10:00:00Z''\<rparr>"

definition code_note :: memory where
  "code_note =
     \<lparr>m_id = ''m-2'', m_content = ''Retry wrapper lives in http.ts'', m_memory_type = Some ''code'',
      m_importance = 5, m_created_at = ''2025-05-24T10:00:00Z''\<rparr>"

definition remembering :: backend where
  "remembering = unreachable\<lparr>memories_answer := OkJson (Wrapped [decision_note, code_note])\<rparr>"

definition creating :: backend where
  "creating = unreachable\<lparr>create_answer := OkJson (UnderProject alpha)\<rparr>"

definition in_beta :: session where
  "in_beta = \<lparr>currentProjectId = Some ''p-beta'', calls = [], detached = []\<rparr>"

section \<open>Properties\<close>

lemmas worlds = fresh_def unreachable_def alpha_def beta_def nameless_def marked_world_def
  unmarked_world_def empty_world_def nameless_world_def alpha_id_def offline_def in_alpha_def
  urgent_def routine_def minor_def child_def planning_def decision_note_def code_note_def
  remembering_def creating_def in_beta_def

lemmas remote_defs = ensureCurrentProject_def getCurrentProject_def listProjects_def
  setCurrentProject_def request_def trackUsage_def issue_def marked_def listed_def unwrap_def
  held_def truthy_def rethrow_def api_failed_def

lemmas direct_defs = select_def single_def order_by_def held_def truthy_def issue_def
  error_message_def error_code_def or_string_def priority_text_def

subsection \<open>The API client\<close>

lemma request_current [simp]:
  "currentProjectId (snd (request t method endpoint body f s)) = currentProjectId s"
  by (cases f) (simp_all add: request_def trackUsage_def issue_def Let_def split: tracked.splits)

lemma request_calls [simp]:
  "calls (snd (request t method endpoint body f s)) = calls s @ [Http method endpoint body]"
  by (cases f) (simp_all add: request_def trackUsage_def issue_def Let_def split: tracked.splits)

lemma request_answer:
  "fst (request t method endpoint body f s) = fst (request t' method endpoint body f s')"
  by (cases f) (simp_all add: request_def trackUsage_def issue_def Let_def split: tracked.splits)

lemma request_ok [simp]:
  "fst (request t method endpoint body (OkJson v) s) = Inr v"
  by (simp add: request_def trackUsage_def issue_def Let_def split: tracked.splits)

text \<open>
  Claim C8. The usage report sent after a successful request never blocks or fails the
  request that caused it. \<^verbatim>\<open>trackUsage\<close> is fulfilled whether the usage fetch
  resolves, rejects or never settles; \<^verbatim>\<open>request\<close> returns the same result and the
  same session for every fate of the usage fetch; and an ok response with a readable
  body yields that body, the report being left in the detached log.
\<close>

theorem usage_tracking_is_discarded:
  "fst (trackUsage t endpoint method s) = Inr ()
   \<and> request t method endpoint body f s = request Delivered method endpoint body f s
   \<and> request t method endpoint body (OkJson v) s
       = (Inr v, (issue (Http method endpoint body) s)\<lparr>detached := detached s @ [(endpoint, method)]\<rparr>)"
  by (cases f) (simp_all add: request_def trackUsage_def issue_def Let_def split: tracked.splits)

subsection \<open>Resolution of the current project\<close>

lemma list_answer: "fst (listProjects b s) = fst (listProjects b s')"
  unfolding listProjects_def by (rule request_answer)

lemma set_answer: "fst (setCurrentProject b p s) = fst (setCurrentProject b p s')"
  unfolding setCurrentProject_def by (rule request_answer)

lemma set_ok: "set_current_answer b = OkJson () \<Longrightarrow> fst (setCurrentProject b p s) = Inr ()"
  by (simp add: setCurrentProject_def)

lemma set_succeeds_iff:
  "fst (setCurrentProject b p s) = Inr u \<longleftrightarrow> set_current_answer b = OkJson ()"
  by (cases "set_current_answer b")
     (auto simp add: setCurrentProject_def request_def trackUsage_def issue_def Let_def split: tracked.splits)

lemma get_current [simp]:
  "currentProjectId (snd (getCurrentProject b s)) = currentProjectId s"
  "calls (snd (getCurrentProject b s)) = calls s @ [Http ''GET'' ''/projects/current'' JUndefined]"
  by (simp_all add: getCurrentProject_def)

lemma list_projects [simp]:
  "currentProjectId (snd (listProjects b s)) = currentProjectId s"
  "calls (snd (listProjects b s)) = calls s @ [Http ''GET'' ''/projects'' JUndefined]"
  by (simp_all add: listProjects_def)

lemma set_current [simp]:
  "currentProjectId (snd (setCurrentProject b p s)) = currentProjectId s"
  "calls (snd (setCurrentProject b p s))
     = calls s @ [Http ''PUT'' ''/projects/current'' (JObject [(''projectId'', JString p)])]"
  by (simp_all add: setCurrentProject_def)

lemma ensure_unfold:
  assumes "held (currentProjectId s) = None"
  shows "ensureCurrentProject b s =
     (let r1 = getCurrentProject b s in
      case marked (fst r1) of
        Some pid \<Rightarrow> (Inr pid, (snd r1)\<lparr>currentProjectId := Some pid\<rparr>)
      | None \<Rightarrow>
          (let r2 = listProjects b (snd r1) in
           case listed (fst r2) of
             [] \<Rightarrow> (Inl no_project_available, snd r2)
           | p # ps \<Rightarrow>
               (let r3 = setCurrentProject b (p_id p) ((snd r2)\<lparr>currentProjectId := Some (p_id p)\<rparr>) in
                case fst r3 of
                  Inl e \<Rightarrow> (Inl no_project_available, snd r3)
                | Inr u \<Rightarrow> (Inr (p_id p), snd r3))))"
  using assms
  by (simp add: ensureCurrentProject_def Let_def split: prod.splits option.splits list.splits sum.splits)

text \<open>
  Claim C2. When no current project is held, \<^verbatim>\<open>ensureCurrentProject\<close> resolves in a
  fixed order. First it asks the API for the marked current project and, if one with
  an id is answered, adopts it with no further request. Otherwise it lists the projects,
  adopts the first, and marks it current with \<^verbatim>\<open>PUT /projects/current\<close>; the id is
  returned when that request succeeds. If the list is empty (or cannot be fetched) the
  call fails with the message that names \<^verbatim>\<open>create_project\<close>, and
  \<^verbatim>\<open>store_memory\<close> answers with that message in an error envelope.
\<close>

theorem resolution_order:
  assumes "held (currentProjectId s) = None"
  shows "(marked (fst (getCurrentProject b s)) = Some pid \<longrightarrow>
            fst (ensureCurrentProject b s) = Inr pid
            \<and> currentProjectId (snd (ensureCurrentProject b s)) = Some pid
            \<and> calls (snd (ensureCurrentProject b s)) = calls s @ [Http ''GET'' ''/projects/current'' JUndefined])
       \<and> (marked (fst (getCurrentProject b s)) = None \<and> listed (fst (listProjects b s)) = p # ps \<longrightarrow>
            currentProjectId (snd (ensureCurrentProject b s)) = Some (p_id p)
            \<and> calls (snd (ensureCurrentProject b s))
                = calls s @ [Http ''GET'' ''/projects/current'' JUndefined,
                             Http ''GET'' ''/projects'' JUndefined,
                             Http ''PUT'' ''/projects/current'' (JObject [(''projectId'', JString (p_id p))])]
            \<and> fst (ensureCurrentProject b s)
                = (if set_current_answer b = OkJson () then Inr (p_id p) else Inl no_project_available))
       \<and> (marked (fst (getCurrentProject b s)) = None \<and> listed (fst (listProjects b s)) = [] \<longrightarrow>
            fst (ensureCurrentProject b s) = Inl no_project_available
            \<and> currentProjectId (snd (ensureCurrentProject b s)) = currentProjectId s
            \<and> calls (snd (ensureCurrentProject b s))
                = calls s @ [Http ''GET'' ''/projects/current'' JUndefined, Http ''GET'' ''/projects'' JUndefined]
            \<and> fst (store_memory_remote b content memoryType importance s)
                = Envelope (Text (''Error: No project available. Please create a project first using ''
                                  @ ''create_project'' @ ''.'')))"
proof -
  note u = ensure_unfold [OF assms, of b]
  have a: "marked (fst (getCurrentProject b s)) = Some pid \<longrightarrow>
            fst (ensureCurrentProject b s) = Inr pid
            \<and> currentProjectId (snd (ensureCurrentProject b s)) = Some pid
            \<and> calls (snd (ensureCurrentProject b s)) = calls s @ [Http ''GET'' ''/projects/current'' JUndefined]"
    by (simp add: u Let_def)
  have l: "listed (fst (listProjects b (snd (getCurrentProject b s)))) = listed (fst (listProjects b s))"
    using list_answer by metis
  have b2: "marked (fst (getCurrentProject b s)) = None \<and> listed (fst (listProjects b s)) = p # ps \<longrightarrow>
            currentProjectId (snd (ensureCurrentProject b s)) = Some (p_id p)
            \<and> calls (snd (ensureCurrentProject b s))
                = calls s @ [Http ''GET'' ''/projects/current'' JUndefined,
                             Http ''GET'' ''/projects'' JUndefined,
                             Http ''PUT'' ''/projects/current'' (JObject [(''projectId'', JString (p_id p))])]
            \<and> fst (ensureCurrentProject b s)
                = (if set_current_answer b = OkJson () then Inr (p_id p) else Inl no_project_available)"
    by (auto simp add: u l Let_def set_succeeds_iff set_ok split: sum.splits)
  have c: "marked (fst (getCurrentProject b s)) = None \<and> listed (fst (listProjects b s)) = [] \<longrightarrow>
            fst (ensureCurrentProject b s) = Inl no_project_available
            \<and> currentProjectId (snd (ensureCurrentProject b s)) = currentProjectId s
            \<and> calls (snd (ensureCurrentProject b s))
                = calls s @ [Http ''GET'' ''/projects/current'' JUndefined, Http ''GET'' ''/projects'' JUndefined]
            \<and> fst (store_memory_remote b content memoryType importance s)
                = Envelope (Text (''Error: No project available. Please create a project first using ''
                                  @ ''create_project'' @ ''.''))"
    by (auto simp add: u l Let_def store_memory_remote_def error_envelope_def no_project_available_def
          split: prod.splits)
  from a b2 c show ?thesis by blast
qed

theorem resolution_order_witness:
  "held (currentProjectId fresh) = None
   \<and> marked (fst (getCurrentProject marked_world fresh)) = Some ''p-alpha''
   \<and> fst (ensureCurrentProject marked_world fresh) = Inr ''p-alpha''
   \<and> marked (fst (getCurrentProject unmarked_world fresh)) = None
   \<and> listed (fst (listProjects unmarked_world fresh)) = [beta, alpha]
   \<and> fst (ensureCurrentProject unmarked_world fresh) = Inr ''p-beta''
   \<and> currentProjectId (snd (ensureCurrentProject unmarked_world fresh)) = Some ''p-beta''
   \<and> marked (fst (getCurrentProject empty_world fresh)) = None
   \<and> listed (fst (listProjects empty_world fresh)) = []
   \<and> fst (ensureCurrentProject empty_world fresh) = Inl no_project_available
   \<and> calls (snd (ensureCurrentProject empty_world fresh))
       = [Http ''GET'' ''/projects/current'' JUndefined, Http ''GET'' ''/projects'' JUndefined]"
proof -
  have h: "held (currentProjectId fresh) = None"
    by (simp add: fresh_def held_def)
  have m1: "marked (fst (getCurrentProject marked_world fresh)) = Some ''p-alpha''"
    by (simp add: worlds remote_defs)
  have m2: "marked (fst (getCurrentProject unmarked_world fresh)) = None"
    by (simp add: worlds remote_defs)
  have l2: "listed (fst (listProjects unmarked_world fresh)) = beta # [alpha]"
    by (simp add: worlds remote_defs)
  have s2: "set_current_answer unmarked_world = OkJson ()"
    by (simp add: worlds)
  have m3: "marked (fst (getCurrentProject empty_world fresh)) = None"
    by (simp add: worlds remote_defs)
  have l3: "listed (fst (listProjects empty_world fresh)) = []"
    by (simp add: worlds remote_defs)
  have c: "calls fresh = []"
    by (simp add: fresh_def)
  have b: "p_id beta = ''p-beta''"
    by (simp add: beta_def)
  show ?thesis
    using resolution_order [OF h, of marked_world "''p-alpha''"]
      resolution_order [OF h, of unmarked_world _ beta "[alpha]"]
      resolution_order [OF h, of empty_world]
    by (simp add: h m1 m2 l2 s2 m3 l3 c b)
qed

lemma ensure_held:
  "held (currentProjectId s) = Some pid \<Longrightarrow> ensureCurrentProject b s = (Inr pid, s)"
  by (simp add: ensureCurrentProject_def)

lemma marked_truthy: "marked r = Some pid \<Longrightarrow> truthy pid"
  by (auto simp add: marked_def split: sum.splits option.splits if_splits)

lemma held_Some: "held c = Some pid \<Longrightarrow> c = Some pid"
  by (auto simp add: held_def split: option.splits if_splits)

lemma ensure_adopts:
  assumes "fst (ensureCurrentProject b s) = Inr pid"
  shows "currentProjectId (snd (ensureCurrentProject b s)) = Some pid"
proof (cases "held (currentProjectId s)")
  case (Some q)
  then show ?thesis
    using assms by (simp add: ensure_held held_Some)
next
  case None
  show ?thesis
    using assms
    by (auto simp add: ensure_unfold [OF None] Let_def split: option.splits list.splits sum.splits)
qed

text \<open>
  For every non-empty project id the resolution is idempotent: if
  \<^verbatim>\<open>ensureCurrentProject\<close> returns a non-empty id, then a later call in any session
  whose current-project reference is still the one the first call left returns the same
  id, issues no request and leaves the session as it is, whatever the API would answer
  by then.
\<close>

theorem resolution_idempotent:
  assumes "fst (ensureCurrentProject b s) = Inr pid"
    and "truthy pid"
    and "currentProjectId s' = currentProjectId (snd (ensureCurrentProject b s))"
  shows "ensureCurrentProject b' s' = (Inr pid, s')"
proof -
  have "currentProjectId s' = Some pid"
    using assms(1,3) by (simp add: ensure_adopts)
  then have "held (currentProjectId s') = Some pid"
    using assms(2) by (simp add: held_def)
  then show ?thesis
    by (rule ensure_held)
qed

theorem resolution_idempotent_witness:
  "fst (ensureCurrentProject unmarked_world fresh) = Inr ''p-beta''
   \<and> truthy ''p-beta''
   \<and> ensureCurrentProject empty_world (snd (ensureCurrentProject unmarked_world fresh))
       = (Inr ''p-beta'', snd (ensureCurrentProject unmarked_world fresh))"
proof -
  have f: "fst (ensureCurrentProject unmarked_world fresh) = Inr ''p-beta''"
    by (simp add: worlds remote_defs)
  have t: "truthy ''p-beta''"
    by (simp add: truthy_def)
  show ?thesis
    using resolution_idempotent [OF f t refl, of empty_world] f t by simp
qed

text \<open>
  Claim C9. The resolution is idempotent: after a call of
  \<^verbatim>\<open>ensureCurrentProject\<close> that returned a project, a second call with the
  reference untouched returns the same project without asking the API again. The code
  misses one case. Step 1 adopts a marked project only if \<^verbatim>\<open>project && project.id\<close>,
  and \<^verbatim>\<open>storeMemory\<close> refuses an empty id as no project id, but step 2 stores
  \<^verbatim>\<open>projects[0].id\<close> unchecked. When the first listed project has the empty id, the
  first call returns it after three requests, and the test \<^verbatim>\<open>if (currentProjectId)\<close>
  of the next call takes the stored value for no reference: against the same answers it
  repeats the three requests, and once the API marks another project it returns that one.
\<close>

theorem resolution_repeats_for_empty_id:
  "fst (ensureCurrentProject nameless_world fresh) = Inr []
   \<and> calls (snd (ensureCurrentProject nameless_world fresh))
       = [Http ''GET'' ''/projects/current'' JUndefined,
          Http ''GET'' ''/projects'' JUndefined,
          Http ''PUT'' ''/projects/current'' (JObject [(''projectId'', JString [])])]
   \<and> fst (ensureCurrentProject nameless_world (snd (ensureCurrentProject nameless_world fresh))) = Inr []
   \<and> calls (snd (ensureCurrentProject nameless_world (snd (ensureCurrentProject nameless_world fresh))))
       = [Http ''GET'' ''/projects/current'' JUndefined,
          Http ''GET'' ''/projects'' JUndefined,
          Http ''PUT'' ''/projects/current'' (JObject [(''projectId'', JString [])]),
          Http ''GET'' ''/projects/current'' JUndefined,
          Http ''GET'' ''/projects'' JUndefined,
          Http ''PUT'' ''/projects/current'' (JObject [(''projectId'', JString [])])]
   \<and> fst (ensureCurrentProject marked_world (snd (ensureCurrentProject nameless_world fresh))) = Inr ''p-alpha''
   \<and> fst (store_memory_remote nameless_world ''hello'' None None fresh)
       = Envelope (Text ''Error: Project ID is required for memory operations'')"
  by (simp add: worlds remote_defs store_memory_remote_def storeMemory_def error_envelope_def
        memory_project_required_def)

subsection \<open>Switching the current project\<close>

text \<open>
  Claim C10. \<^verbatim>\<open>set_current_project\<close> is not atomic on error: whenever the request
  that marks the project fails, the tool answers with an error envelope, the request
  has been issued, and the session's reference is the requested id all the same.
\<close>

theorem set_current_project_not_atomic:
  assumes "set_current_answer b \<noteq> OkJson ()"
  shows "(\<exists>e. fst (set_current_project_remote b projectId s) = error_envelope e)
         \<and> currentProjectId (snd (set_current_project_remote b projectId s)) = Some projectId
         \<and> calls (snd (set_current_project_remote b projectId s))
             = calls s @ [Http ''PUT'' ''/projects/current'' (JObject [(''projectId'', JString projectId)])]"
  using assms
  by (cases "set_current_answer b")
     (auto simp add: set_current_project_remote_def setCurrentProject_def request_def trackUsage_def
        issue_def Let_def split: tracked.splits)

theorem set_current_project_not_atomic_witness:
  "set_current_answer unreachable \<noteq> OkJson ()
   \<and> fst (set_current_project_remote unreachable ''p-beta'' (fresh\<lparr>currentProjectId := Some ''p-alpha''\<rparr>))
       = Envelope (Text ''Error: fetch failed'')
   \<and> currentProjectId (snd (set_current_project_remote unreachable ''p-beta''
         (fresh\<lparr>currentProjectId := Some ''p-alpha''\<rparr>))) = Some ''p-beta''"
proof -
  have h: "set_current_answer unreachable \<noteq> OkJson ()"
    by (simp add: unreachable_def)
  have e: "fst (set_current_project_remote unreachable ''p-beta'' (fresh\<lparr>currentProjectId := Some ''p-alpha''\<rparr>))
             = Envelope (Text ''Error: fetch failed'')"
    by (simp add: worlds remote_defs set_current_project_remote_def error_envelope_def)
  show ?thesis
    using set_current_project_not_atomic [OF h, of "''p-beta''" "fresh\<lparr>currentProjectId := Some ''p-alpha''\<rparr>"] h e
    by simp
qed

subsection \<open>Creating a project\<close>

text \<open>
  The self-hosted handler makes the created project the current one, and
  \<^verbatim>\<open>get_current_project\<close> then answers with its row, provided the store holds
  exactly that row under the id. The hosted handler leaves the reference as it was and
  issues the \<^verbatim>\<open>POST /projects\<close> request only.
\<close>

lemma create_project_direct_reference:
  assumes "inserted_project db = Data d" and "truthy (trim name)"
  shows "currentProjectId (snd (create_project_direct db name description metadata s)) = Some (pr_id d)"
  using assms by (simp add: create_project_direct_def Let_def)

lemma created_project_is_current_direct:
  assumes "inserted_project db = Data d" and "truthy (trim name)" and "truthy (pr_id d)"
    and "condition db' = Data ()"
    and "filter (\<lambda>p. pr_id p = pr_id d) (project_rows db') = [d]"
  shows "\<exists>stats. fst (get_current_project_direct db'
                       (snd (create_project_direct db name description metadata s)))
                 = Envelope (Serialized (JObject [(''project'', project_row_view d), (''stats'', stats)]))"
proof -
  have "held (currentProjectId (snd (create_project_direct db name description metadata s))) = Some (pr_id d)"
    using assms(1-3) by (simp add: create_project_direct_reference held_def)
  then show ?thesis
    using assms(4,5) by (simp add: get_current_project_direct_def select_def single_def Let_def)
qed

lemma blank_name_refused:
  "create_project_direct offline [CHR 0xC2, CHR 0xA0] None None fresh
     = (Envelope (Text ''Error: Project name cannot be empty.''), fresh)"
  by (simp add: create_project_direct_def trim_def strip.simps leading_def white_space_def truthy_def)

lemma create_project_remote_reference:
  "currentProjectId (snd (create_project_remote b name description s)) = currentProjectId s
   \<and> calls (snd (create_project_remote b name description s))
       = calls s @ [Http ''POST'' ''/projects''
                      (JObject [(''name'', JString name), (''description'', opt_string description)])]"
proof -
  obtain r s1 where c: "createProject b name description s = (r, s1)"
    by (cases "createProject b name description s")
  have "currentProjectId (snd (createProject b name description s)) = currentProjectId s"
    and "calls (snd (createProject b name description s))
          = calls s @ [Http ''POST'' ''/projects''
                        (JObject [(''name'', JString name), (''description'', opt_string description)])]"
    by (simp_all add: createProject_def)
  then show ?thesis
    using c by (cases r) (simp_all add: create_project_remote_def Let_def)
qed

text \<open>
  Claim C1. After a successful \<^verbatim>\<open>create_project\<close> the session's current project
  is the created one. On the hosted server it is not: with \<^verbatim>\<open>p-beta\<close> current,
  creating \<^verbatim>\<open>Alpha\<close> (which the API answers with the project \<^verbatim>\<open>p-alpha\<close>)
  returns the project's data, keeps \<^verbatim>\<open>p-beta\<close> as the reference and never asks
  the API to mark the new project.
\<close>

theorem create_project_remote_keeps_old_project:
  "fst (create_project_remote creating ''Alpha'' None in_beta)
     = Envelope (Serialized (JObject
         [(''id'', JString ''p-alpha''), (''name'', JString ''Alpha''),
          (''description'', JUndefined), (''created_at'', JString ''2025-05-25T14:33:55Z'')]))
   \<and> currentProjectId (snd (create_project_remote creating ''Alpha'' None in_beta)) = Some ''p-beta''
   \<and> calls (snd (create_project_remote creating ''Alpha'' None in_beta))
       = [Http ''POST'' ''/projects'' (JObject [(''name'', JString ''Alpha''), (''description'', JUndefined)])]"
  by (simp add: worlds remote_defs create_project_remote_def createProject_def
        created_project_def opt_string_def)

subsection \<open>Errors and the envelope\<close>

text \<open>
  Every path of the hosted \<^verbatim>\<open>store_memory\<close> ends in an envelope.
\<close>

lemma store_memory_remote_never_escapes:
  "fst (store_memory_remote b content memoryType importance s) \<noteq> Escaped m"
  by (simp add: store_memory_remote_def error_envelope_def split: prod.splits sum.splits)

text \<open>
  Claim C3. Every tool turns every error into an error envelope. The self-hosted task
  and project-listing tools do not: \<^verbatim>\<open>create_task\<close> throws when no project is
  current and when the store refuses the insert, and \<^verbatim>\<open>list_projects\<close> throws
  when the store answers with an error; the exception leaves the handler.
\<close>

theorem direct_task_tools_let_errors_escape:
  "fst (create_task_direct offline ''Build auth'' None None None fresh)
     = Escaped ''No current project set. Please create or select a project first.''
   \<and> fst (create_task_direct offline ''Build auth'' None None None in_alpha) = Escaped ''connection failure''
   \<and> fst (list_projects_direct offline in_alpha) = Escaped ''connection failure''"
  by (simp add: worlds direct_defs create_task_direct_def list_projects_direct_def
        no_current_project_thrown_def)

subsection \<open>The limit of a memory search\<close>

text \<open>
  Claim C6, as amended. On the self-hosted server a given limit is accepted exactly
  when it lies in 1..100 and an absent limit is 10; on the hosted server a given limit
  is accepted exactly when it lies in 1..50 and an absent limit is searched as 10. A
  refused call leaves the session untouched (no request has been issued), and the
  handlers themselves never answer with a validation error.
\<close>

theorem search_limit_bounds:
  "search_memory_direct db (Given q) (Given x) s
     = (if q \<noteq> [] \<and> 1 \<le> x \<and> x \<le> 100 then search_memory_direct_handler db q x s
        else (ValidationError, s))
   \<and> search_memory_direct db (Given q) Absent s
     = (if q \<noteq> [] then search_memory_direct_handler db q 10 s else (ValidationError, s))
   \<and> search_memory_remote b (Given q) (Given x) s
     = (if q \<noteq> [] \<and> 1 \<le> x \<and> x \<le> 50 then search_memory_remote_handler b q (Some x) s
        else (ValidationError, s))
   \<and> search_memory_remote b (Given q) Absent s
     = (if q \<noteq> [] then search_memory_remote_handler b q None s else (ValidationError, s))
   \<and> search_memory_remote_handler b q None s = search_memory_remote_handler b q (Some 10) s
   \<and> fst (search_memory_direct_handler db q x s) \<noteq> ValidationError
   \<and> fst (search_memory_remote_handler b q l s) \<noteq> ValidationError"
proof -
  have len: "Suc 0 \<le> length q \<longleftrightarrow> q \<noteq> []"
    by (cases q) simp_all
  have d1: "search_memory_direct db (Given q) (Given x) s
     = (if q \<noteq> [] \<and> 1 \<le> x \<and> x \<le> 100 then search_memory_direct_handler db q x s
        else (ValidationError, s))"
    by (simp add: search_memory_direct_def nonempty_string_def default_number_def len)
  have d2: "search_memory_direct db (Given q) Absent s
     = (if q \<noteq> [] then search_memory_direct_handler db q 10 s else (ValidationError, s))"
    by (simp add: search_memory_direct_def nonempty_string_def default_number_def len)
  have r1: "search_memory_remote b (Given q) (Given x) s
     = (if q \<noteq> [] \<and> 1 \<le> x \<and> x \<le> 50 then search_memory_remote_handler b q (Some x) s
        else (ValidationError, s))"
    by (simp add: search_memory_remote_def nonempty_string_def optional_number_def len)
  have r2: "search_memory_remote b (Given q) Absent s
     = (if q \<noteq> [] then search_memory_remote_handler b q None s else (ValidationError, s))"
    by (simp add: search_memory_remote_def nonempty_string_def optional_number_def len)
  have o: "or_number None 10 = or_number (Some 10) 10"
    by (simp add: or_number_def)
  have r3: "search_memory_remote_handler b q None s = search_memory_remote_handler b q (Some 10) s"
    unfolding search_memory_remote_handler_def o by (rule refl)
  have h1: "fst (search_memory_direct_handler db q x s) \<noteq> ValidationError"
    by (simp add: search_memory_direct_handler_def error_envelope_def Let_def
          split: option.splits sum.splits answer.splits)
  have h2: "fst (search_memory_remote_handler b q l s) \<noteq> ValidationError"
    by (simp add: search_memory_remote_handler_def error_envelope_def split: prod.splits sum.splits)
  from d1 d2 r1 r2 r3 h1 h2 show ?thesis by blast
qed

text \<open>
  A limit of 75 lies in 1..100; the hosted server refuses it, the self-hosted server
  goes on to the embedding service.
\<close>

theorem search_limit_75_refused_by_hosted_server:
  "(1::real) \<le> 75 \<and> (75::real) \<le> 100
   \<and> search_memory_remote unreachable (Given ''auth'') (Given 75) in_beta = (ValidationError, in_beta)
   \<and> fst (search_memory_direct offline (Given ''auth'') (Given 75) in_alpha) = Envelope (Text ''Error: Connection error.'')
   \<and> calls (snd (search_memory_direct offline (Given ''auth'') (Given 75) in_alpha)) = [Embedding ''auth'']"
  by (simp add: search_memory_remote_def search_memory_direct_def nonempty_string_def
        optional_number_def default_number_def search_memory_direct_handler_def worlds direct_defs
        trim_def strip.simps leading_def white_space_def error_envelope_def)

subsection \<open>Listing memories\<close>

text \<open>
  The self-hosted query returns only rows that pass the filters, newest first; the
  hosted handler does not read its filters.
\<close>

lemma set_insert_by: "set (insert_by le x xs) = insert x (set xs)"
  by (induction xs) auto

lemma set_order_by: "set (order_by le xs) = set xs"
  by (induction xs) (simp_all add: order_by_def set_insert_by)

lemma memories_query_matches:
  assumes "m \<in> set (memories_query cur memoryType timeRange rows)"
  shows "memory_matches cur memoryType timeRange m"
  using assms by (simp add: memories_query_def set_order_by)

lemma sorted_insert_by:
  assumes "\<And>a b. le a b \<or> le b a" and "\<And>a b c. le a b \<Longrightarrow> le b c \<Longrightarrow> le a c"
    and "sorted_wrt le xs"
  shows "sorted_wrt le (insert_by le x xs)"
  using assms(3)
proof (induction xs)
  case Nil
  then show ?case by simp
next
  case (Cons y ys)
  show ?case
  proof (cases "le x y")
    case True
    then show ?thesis
      using Cons.prems assms(2) by auto
  next
    case False
    then have "le y x"
      using assms(1) by blast
    then show ?thesis
      using False Cons by (auto simp add: set_insert_by)
  qed
qed

lemma memories_query_newest_first:
  "sorted_wrt newest_first (memories_query cur memoryType timeRange rows)"
proof -
  have "sorted_wrt newest_first (order_by newest_first xs)" for xs
  proof (induction xs)
    case Nil
    then show ?case by (simp add: order_by_def)
  next
    case (Cons x xs)
    have "sorted_wrt newest_first (insert_by newest_first x (order_by newest_first xs))"
      by (rule sorted_insert_by) (auto simp add: newest_first_def Cons.IH)
    then show ?case by (simp add: order_by_def)
  qed
  then show ?thesis
    by (simp add: memories_query_def)
qed

lemma get_memories_remote_reads_no_filter:
  "get_memories_remote b memoryType timeRange s = get_memories_remote b None None s"
  by (simp add: get_memories_remote_def)

text \<open>
  Claim C7. \<^verbatim>\<open>get_memories\<close> restricts the memories to the given type and time
  range and returns them newest first. On the hosted server it does not: asked for the
  type \<^verbatim>\<open>code\<close>, it returns the API's list as it came, the older
  \<^verbatim>\<open>decision\<close> memory first.
\<close>

theorem get_memories_remote_ignores_filter:
  "fst (get_memories_remote remembering (Some ''code'') None in_beta)
     = Envelope (Serialized (JArray [memory_view decision_note, memory_view code_note]))
   \<and> field ''type'' (memory_view decision_note) = Some (JString ''decision'')
   \<and> field ''created_at'' (memory_view decision_note) = Some (JString ''2025-05-20T10:00:00Z'')
   \<and> field ''created_at'' (memory_view code_note) = Some (JString ''2025-05-24T10:00:00Z'')"
  by (simp add: worlds remote_defs get_memories_remote_def getMemories_def memory_view_def
        field_def opt_string_def)

subsection \<open>Suggesting the next task\<close>

text \<open>
  A suggested task belongs to the queried project and is pending or in progress.
\<close>

lemma suggestion_query_open:
  assumes "t \<in> set (suggestion_query pid rows)"
  shows "open_task pid t"
proof -
  have "t \<in> set (order_by suggestion_order (filter (open_task pid) rows))"
    using assms by (auto simp add: suggestion_query_def dest: in_set_takeD)
  then show ?thesis
    by (simp add: set_order_by)
qed

lemma suggestion_never_closed:
  assumes "t \<in> set (suggestion_query pid rows)"
  shows "t_status t \<noteq> Completed \<and> t_status t \<noteq> Cancelled"
  using suggestion_query_open [OF assms] by (auto simp add: open_task_def)

text \<open>
  Claim C5. \<^verbatim>\<open>suggest_next_task\<close> returns the open task of highest priority.
  The store orders the text of the priority, in which \<^verbatim>\<open>medium\<close> comes after
  \<^verbatim>\<open>low\<close> and \<^verbatim>\<open>low\<close> after \<^verbatim>\<open>high\<close>: with a pending task of high priority
  in the table, the tool suggests the younger task of medium priority, and without
  that one the task of low priority.
\<close>

theorem suggest_next_task_prefers_medium_to_high:
  "fst (suggest_next_task_direct planning in_alpha)
     = Envelope (Text ''Suggested next task: Tidy changelog (Priority: medium)'')
   \<and> fst (suggest_next_task_direct (planning\<lparr>task_rows := [urgent, minor]\<rparr>) in_alpha)
     = Envelope (Text ''Suggested next task: Rename helper (Priority: low)'')"
  by (simp add: worlds direct_defs suggest_next_task_direct_def suggestion_query_def
        suggestion_order_def open_task_def)

subsection \<open>Breaking a task down\<close>

lemma single_select:
  assumes "single (select db rows) = Data r"
  shows "rows = [r]"
  using assms
  by (auto simp add: single_def select_def split: answer.splits list.splits)

text \<open>
  Claim C4, as amended. Whenever \<^verbatim>\<open>break_down_task\<close> answers with an envelope, a
  project is current, the task exists, and the handler has read the task and handed
  exactly three rows to the store: research, implement and test, each in the current
  project, pending, depending on exactly the task; the first two with the task's
  priority, the third with \<^verbatim>\<open>medium\<close>. The rows have no other field.
\<close>

theorem break_down_inserts_three_rows:
  assumes "fst (break_down_task_direct db taskId s) = Envelope c"
  shows "\<exists>cur task.
           held (currentProjectId s) = Some cur
           \<and> task \<in> set (task_rows db)
           \<and> t_id task = taskId
           \<and> calls (snd (break_down_task_direct db taskId s))
               = calls s @
                 [Select ''tasks'',
                  Insert ''tasks''
                    [JObject [(''title'', JString (''Research: '' @ t_title task)),
                              (''description'', JString (''Research and gather requirements for '' @ t_title task)),
                              (''priority'', JString (priority_text (t_priority task))),
                              (''project_id'', JString cur),
                              (''status'', JString ''pending''),
                              (''dependencies'', JArray [JString taskId])],
                     JObject [(''title'', JString (''Implement: '' @ t_title task)),
                              (''description'', JString (''Core implementation of '' @ t_title task)),
                              (''priority'', JString (priority_text (t_priority task))),
                              (''project_id'', JString cur),
                              (''status'', JString ''pending''),
                              (''dependencies'', JArray [JString taskId])],
                     JObject [(''title'', JString (''Test: '' @ t_title task)),
                              (''description'', JString (''Test and validate '' @ t_title task)),
                              (''priority'', JString ''medium''),
                              (''project_id'', JString cur),
                              (''status'', JString ''pending''),
                              (''dependencies'', JArray [JString taskId])]]]"
proof (cases "held (currentProjectId s)")
  case None
  then show ?thesis
    using assms by (simp add: break_down_task_direct_def)
next
  case (Some cur)
  show ?thesis
  proof (cases "single (select db (filter (\<lambda>t. t_id t = taskId) (task_rows db)))")
    case (Threw m)
    then show ?thesis
      using assms Some by (simp add: break_down_task_direct_def Let_def)
  next
    case (Failed e)
    then show ?thesis
      using assms Some by (simp add: break_down_task_direct_def Let_def)
  next
    case (Data task)
    then have "filter (\<lambda>t. t_id t = taskId) (task_rows db) = [task]"
      by (rule single_select)
    then have "task \<in> set (filter (\<lambda>t. t_id t = taskId) (task_rows db))"
      by simp
    then have m: "task \<in> set (task_rows db)" "t_id task = taskId"
      by simp_all
    have "calls (snd (break_down_task_direct db taskId s))
            = calls s @ [Select ''tasks'', Insert ''tasks'' (map (subtask_row cur taskId) (subtasks task))]"
      using Some Data
      by (simp add: break_down_task_direct_def Let_def issue_def split: answer.splits)
    then show ?thesis
      using Some m by (auto simp add: subtasks_def subtask_row_def)
  qed
qed

theorem break_down_inserts_three_rows_witness:
  "fst (break_down_task_direct planning (t_id urgent) in_alpha)
     = Envelope (Text (''Task broken down into 3 subtasks:'' @ nl @ ''- Research: Fix login outage'' @ nl
                       @ ''- Implement: Fix login outage'' @ nl @ ''- Test: Fix login outage''))
   \<and> length (inserted (calls (snd (break_down_task_direct planning (t_id urgent) in_alpha)))) = 3
   \<and> map (field ''priority'') (inserted (calls (snd (break_down_task_direct planning (t_id urgent) in_alpha))))
       = [Some (JString ''high''), Some (JString ''high''), Some (JString ''medium'')]"
proof -
  have e: "fst (break_down_task_direct planning (t_id urgent) in_alpha)
     = Envelope (Text (''Task broken down into 3 subtasks:'' @ nl @ ''- Research: Fix login outage'' @ nl
                       @ ''- Implement: Fix login outage'' @ nl @ ''- Test: Fix login outage''))"
    by (simp add: break_down_task_direct_def worlds direct_defs decimal.simps digit_def)
  have p: "t_id task = t_id urgent \<Longrightarrow> task \<in> set (task_rows planning) \<Longrightarrow> t_priority task = High" for task
    by (auto simp add: worlds)
  show ?thesis
    using break_down_inserts_three_rows [OF e] e
    by (auto simp add: inserted_def field_def in_alpha_def priority_text_def dest: p)
qed

text \<open>
  No row names a parent: on the task \<^verbatim>\<open>Fix login outage\<close> each of the three rows
  depends on the task, and none has a \<^verbatim>\<open>parent_id\<close> or \<^verbatim>\<open>parentId\<close> field.
\<close>

theorem break_down_sets_no_parent:
  "fst (break_down_task_direct planning (t_id urgent) in_alpha)
     = Envelope (Text (''Task broken down into 3 subtasks:'' @ nl @ ''- Research: Fix login outage'' @ nl
                       @ ''- Implement: Fix login outage'' @ nl @ ''- Test: Fix login outage''))
   \<and> map (field ''dependencies'') (inserted (calls (snd (break_down_task_direct planning (t_id urgent) in_alpha))))
       = [Some (JArray [JString (t_id urgent)]), Some (JArray [JString (t_id urgent)]),
          Some (JArray [JString (t_id urgent)])]
   \<and> map (field ''parent_id'') (inserted (calls (snd (break_down_task_direct planning (t_id urgent) in_alpha))))
       = [None, None, None]
   \<and> map (field ''parentId'') (inserted (calls (snd (break_down_task_direct planning (t_id urgent) in_alpha))))
       = [None, None, None]"
  by (simp add: break_down_task_direct_def worlds direct_defs decimal.simps digit_def inserted_def
        field_def subtasks_def subtask_row_def)

end
